theory Spec2Isabelle
  imports Main
begin

text \<open>
  A model of the PulseChain client library: the validators, the request handler, the
  subpath client, the decorator \<open>paginated\<close> and the resource-client methods that
  validate a filter argument. Exceptions are values of a sum type, and every operation
  that may send a request returns the list of the requests it issued with its outcome.
\<close>

section \<open>Python values\<close>

text \<open>
  The client passes around strings, lists, dictionaries, \<open>None\<close> and decoded JSON. One
  datatype covers them. Dictionary keys are strings (keyword names, query fields, JSON
  object keys); a dictionary is an association list in insertion order, as Python keeps
  it. Floating-point numbers are left out: no function of the library computes with one.
  A string is a list of characters, one character for each code point.
\<close>

datatype pyval =
    PNone
  | PBool bool
  | PInt int
  | PStr string
  | PList "pyval list"
  | PDict "(string \<times> pyval) list"

type_synonym dict = "(string \<times> pyval) list"

text \<open>Truth value of an object, as \<open>if x:\<close> and \<open>x or y\<close> test it.\<close>

fun truthy :: "pyval \<Rightarrow> bool" where
  "truthy PNone = False"
| "truthy (PBool b) = b"
| "truthy (PInt i) = (i \<noteq> 0)"
| "truthy (PStr s) = (s \<noteq> [])"
| "truthy (PList xs) = (xs \<noteq> [])"
| "truthy (PDict d) = (d \<noteq> [])"

definition py_or :: "pyval \<Rightarrow> pyval \<Rightarrow> pyval" where
  "py_or x y = (if truthy x then x else y)"

text \<open>\<open>d[k] = v\<close> on a dictionary: an existing key keeps its place, a new key goes last.\<close>

fun dict_set :: "dict \<Rightarrow> string \<Rightarrow> pyval \<Rightarrow> dict" where
  "dict_set [] k v = [(k, v)]"
| "dict_set ((k', v') # d) k v =
     (if k' = k then (k, v) # d else (k', v') # dict_set d k v)"

section \<open>HTTP responses and the exception hierarchy\<close>

text \<open>
  What the library reads of an \<open>httpx.Response\<close>: \<open>status_code\<close>, \<open>text\<close> (here
  \<open>body_text\<close>) and the result of \<open>json()\<close> (here \<open>body_json\<close>, \<open>None\<close> when the body
  does not decode and \<open>json()\<close> raises). Decoding itself belongs to the HTTP library.
\<close>

record response =
  status_code :: int
  body_text :: string
  body_json :: "pyval option"

text \<open>
  The exceptions of \<open>exceptions.py\<close>, each with the argument it is constructed with, and
  the built-in exceptions the modelled code can raise. \<open>HttpxError\<close> stands for any
  exception of the transport other than \<open>httpx.ReadTimeout\<close>, which \<open>get\<close> does not
  catch and the caller receives as it is. \<open>NotModelled\<close> is not an
  exception of the program: it marks the one operation the model leaves out, \<open>str()\<close> of
  a list or dictionary inside an f-string.
\<close>

datatype error =
    PulseChainTimeoutException string
  | PulseChainServerError response
  | PulseChainUnprocessableEntityException pyval
  | PulseChainBadRequestException pyval
  | PulseChainUnknownException string
  | PulseChainBadParamException string
  | TypeError
  | KeyError string
  | JSONDecodeError
  | ValidationError
  | HttpxError string
  | NotModelled

definition ebind :: "error + 'a \<Rightarrow> ('a \<Rightarrow> error + 'b) \<Rightarrow> error + 'b" where
  "ebind m f = (case m of Inl e \<Rightarrow> Inl e | Inr x \<Rightarrow> f x)"

text \<open>\<open>obj[k] = v\<close> and \<open>obj[k]\<close> with a string key, on any object.\<close>

fun py_setitem :: "pyval \<Rightarrow> string \<Rightarrow> pyval \<Rightarrow> error + pyval" where
  "py_setitem (PDict d) k v = Inr (PDict (dict_set d k v))"
| "py_setitem _ k v = Inl TypeError"

fun py_getitem :: "pyval \<Rightarrow> string \<Rightarrow> error + pyval" where
  "py_getitem (PDict d) k = (case map_of d k of None \<Rightarrow> Inl (KeyError k) | Some v \<Rightarrow> Inr v)"
| "py_getitem _ k = Inl TypeError"

section \<open>validators.py\<close>

text \<open>
  Iteration over an object (\<open>for x in obj\<close>, and the argument of \<open>str.join\<close>): a list
  yields its elements, a string its characters, a dictionary its keys.
\<close>

fun py_iter :: "pyval \<Rightarrow> error + pyval list" where
  "py_iter (PList xs) = Inr xs"
| "py_iter (PStr s) = Inr (map (\<lambda>c. PStr [c]) s)"
| "py_iter (PDict d) = Inr (map (\<lambda>kv. PStr (fst kv)) d)"
| "py_iter _ = Inl TypeError"

text \<open>\<open>x in s\<close> for a set \<open>s\<close> of strings: hashing a list or a dictionary raises.\<close>

fun in_str_set :: "pyval \<Rightarrow> string list \<Rightarrow> error + bool" where
  "in_str_set (PStr s) valid = Inr (s \<in> set valid)"
| "in_str_set (PList xs) valid = Inl TypeError"
| "in_str_set (PDict d) valid = Inl TypeError"
| "in_str_set _ valid = Inr False"

text \<open>The loop of every list validator: the first value outside the set raises.\<close>

fun check_allowed :: "string list \<Rightarrow> string \<Rightarrow> pyval list \<Rightarrow> error + unit" where
  "check_allowed valid msg [] = Inr ()"
| "check_allowed valid msg (x # xs) =
     (case in_str_set x valid of
        Inl e \<Rightarrow> Inl e
      | Inr found \<Rightarrow>
          if \<not> found then Inl (PulseChainBadParamException msg)
          else check_allowed valid msg xs)"

fun join :: "string \<Rightarrow> string list \<Rightarrow> string" where
  "join sep [] = []"
| "join sep [x] = x"
| "join sep (x # y # ys) = x @ sep @ join sep (y # ys)"

fun strs_of :: "pyval list \<Rightarrow> string list option" where
  "strs_of [] = Some []"
| "strs_of (PStr s # xs) = map_option ((#) s) (strs_of xs)"
| "strs_of (_ # xs) = None"

text \<open>\<open>sep.join(obj)\<close>: every item must be a string.\<close>

definition py_join :: "string \<Rightarrow> pyval \<Rightarrow> error + pyval" where
  "py_join sep obj =
     ebind (py_iter obj) (\<lambda>xs.
       case strs_of xs of None \<Rightarrow> Inl TypeError | Some ss \<Rightarrow> Inr (PStr (join sep ss)))"

text \<open>The messages of the parameter errors, one for each validator.\<close>

definition block_type_message :: string where
  "block_type_message =
     ''block_type must be one of 'block', 'uncle', or 'reorg'' @ [CHR 0x27]"

definition txn_type_message :: string where
  "txn_type_message =
     ''txn_type must be one of 'token_transfer', 'contract_creation', 'contract_call', 'coin_transfer', or 'token_creation'' @ [CHR 0x27]"

definition txn_filter_message :: string where
  "txn_filter_message =
     ''txn_filter must be either 'pending' or 'validated'' @ [CHR 0x27]"

definition address_txn_filter_message :: string where
  "address_txn_filter_message =
     ''txn_filter must be either 'to' or 'from'' @ [CHR 0x27]"

definition method_message :: string where
  "method_message =
     ''method must be either 'approve', 'transfer', 'multicall', 'mint', or 'commit'' @ [CHR 0x27]"

definition token_type_message :: string where
  "token_type_message =
     ''token_type must be one of 'ERC-20', 'ERC-721', or 'ERC-1155'' @ [CHR 0x27]"

definition contract_filters_message :: string where
  "contract_filters_message =
     ''contract_filter must be one of 'vyper', 'solidity' or 'yul'' @ [CHR 0x27]"

definition validate_block_type :: "pyval \<Rightarrow> error + pyval" where
  "validate_block_type block_type =
     ebind (py_iter block_type) (\<lambda>xs.
     ebind (check_allowed [''block'', ''uncle'', ''reorg'']
              block_type_message xs) (\<lambda>_.
     py_join '','' block_type))"

definition validate_txn_type :: "pyval \<Rightarrow> error + pyval" where
  "validate_txn_type txn_type =
     ebind (py_iter txn_type) (\<lambda>xs.
     ebind (check_allowed
              [''token_transfer'', ''contract_creation'', ''contract_call'',
               ''coin_transfer'', ''token_creation'']
              txn_type_message
              xs) (\<lambda>_.
     py_join '','' txn_type))"

definition validate_txn_filter :: "pyval \<Rightarrow> error + pyval" where
  "validate_txn_filter txn_filter =
     ebind (py_iter txn_filter) (\<lambda>xs.
     ebind (check_allowed [''pending'', ''validated'']
              txn_filter_message xs) (\<lambda>_.
     py_join '' | '' txn_filter))"

definition validate_address_txn_filter :: "pyval \<Rightarrow> error + pyval" where
  "validate_address_txn_filter txn_filter =
     ebind (in_str_set txn_filter [''to'', ''from'']) (\<lambda>found.
       if \<not> found
       then Inl (PulseChainBadParamException
                  address_txn_filter_message)
       else Inr txn_filter)"

definition validate_method :: "pyval \<Rightarrow> error + pyval" where
  "validate_method method =
     ebind (py_iter method) (\<lambda>xs.
     ebind (check_allowed [''approve'', ''transfer'', ''multicall'', ''mint'', ''commit'']
              method_message
              xs) (\<lambda>_.
     py_join '','' method))"

definition validate_token_type :: "pyval \<Rightarrow> error + pyval" where
  "validate_token_type token_type =
     ebind (py_iter token_type) (\<lambda>xs.
     ebind (check_allowed [''ERC-20'', ''ERC-721'', ''ERC-1155'']
              token_type_message
              xs) (\<lambda>_.
     py_join '','' token_type))"

definition validate_contract_filters :: "pyval \<Rightarrow> error + pyval" where
  "validate_contract_filters contract_filters =
     ebind (py_iter contract_filters) (\<lambda>xs.
     ebind (check_allowed [''vyper'', ''solidity'', ''yul'']
              contract_filters_message
              xs) (\<lambda>_.
     py_join '' | '' contract_filters))"

section \<open>Decimal text of an integer\<close>

text \<open>\<open>str(n)\<close> of an integer, as an f-string renders \<open>status_code\<close>.\<close>

fun show_nat :: "nat \<Rightarrow> string" where
  "show_nat n =
     (if n < 10 then [''0123456789'' ! n]
      else show_nat (n div 10) @ [''0123456789'' ! (n mod 10)])"

declare show_nat.simps [simp del]

definition show_int :: "int \<Rightarrow> string" where
  "show_int i = (if i < 0 then ''-'' @ show_nat (nat (- i)) else show_nat (nat i))"

text \<open>
  The text an f-string puts for \<open>{x}\<close>. The text of a list or a dictionary (their
  \<open>repr\<close>) is left out of the model.
\<close>

fun py_format :: "pyval \<Rightarrow> error + string" where
  "py_format (PStr s) = Inr s"
| "py_format PNone = Inr ''None''"
| "py_format (PBool b) = Inr (if b then ''True'' else ''False'')"
| "py_format (PInt i) = Inr (show_int i)"
| "py_format (PList xs) = Inl NotModelled"
| "py_format (PDict d) = Inl NotModelled"

section \<open>Requests and their log\<close>

text \<open>
  One call of \<open>httpx.get(url, params=params, timeout=timeout)\<close>. The server and the
  network are a function from the request to what \<open>httpx.get\<close> does: it returns a
  response, raises \<open>httpx.ReadTimeout(message)\<close>, or raises another exception.
  An operation returns the list of the requests it issued, in order, with its outcome.
  The timeout, a number of seconds that the library only passes on, is an integer.
\<close>

record request =
  req_url :: string
  req_params :: pyval
  req_timeout :: int

datatype transport_result =
    Responds response
  | ReadTimeout string
  | OtherError string

type_synonym transport = "request \<Rightarrow> transport_result"

type_synonym 'a io = "request list \<times> (error + 'a)"

definition silent :: "error + 'a \<Rightarrow> 'a io" where
  "silent r = ([], r)"

definition io_bind :: "'a io \<Rightarrow> ('a \<Rightarrow> 'b io) \<Rightarrow> 'b io" where
  "io_bind m f =
     (case snd m of
        Inl e \<Rightarrow> (fst m, Inl e)
      | Inr x \<Rightarrow> (fst m @ fst (f x), snd (f x)))"

section \<open>exceptions.py\<close>

definition response_json :: "response \<Rightarrow> error + pyval" where
  "response_json r = (case body_json r of None \<Rightarrow> Inl JSONDecodeError | Some j \<Rightarrow> Inr j)"

text \<open>
  The two constructors that read \<open>response.json()["message"]\<close>. When that expression
  raises, the exception that leaves the constructor is the one it raised.
\<close>

definition new_PulseChainUnprocessableEntityException :: "response \<Rightarrow> error" where
  "new_PulseChainUnprocessableEntityException r =
     (case ebind (response_json r) (\<lambda>j. py_getitem j ''message'') of
        Inl e \<Rightarrow> e
      | Inr m \<Rightarrow> PulseChainUnprocessableEntityException m)"

definition new_PulseChainBadRequestException :: "response \<Rightarrow> error" where
  "new_PulseChainBadRequestException r =
     (case ebind (response_json r) (\<lambda>j. py_getitem j ''message'') of
        Inl e \<Rightarrow> e
      | Inr m \<Rightarrow> PulseChainBadRequestException m)"

section \<open>req_handler.py\<close>

record APIRequestHandler =
  base_url :: string
  timeout :: int

definition check_result :: "response \<Rightarrow> error + pyval" where
  "check_result r =
     (if status_code r = 200 then response_json r
      else if status_code r = 500 then Inl (PulseChainServerError r)
      else if status_code r = 422 then Inl (new_PulseChainUnprocessableEntityException r)
      else if status_code r = 400 then Inl (new_PulseChainBadRequestException r)
      else Inl (PulseChainUnknownException
                  (show_int (status_code r) @ '': '' @ body_text r)))"

definition APIRequestHandler_get ::
  "APIRequestHandler \<Rightarrow> transport \<Rightarrow> string \<Rightarrow> pyval \<Rightarrow> pyval io" where
  "APIRequestHandler_get self tr path params =
     (let req = \<lparr>req_url = base_url self @ ''/'' @ path, req_params = params,
                 req_timeout = timeout self\<rparr>
      in case tr req of
           ReadTimeout msg \<Rightarrow> ([req], Inl (PulseChainTimeoutException msg))
         | OtherError name \<Rightarrow> ([req], Inl (HttpxError name))
         | Responds r \<Rightarrow> ([req], check_result r))"

section \<open>subclients/subpath_client.py\<close>

record SubpathClient =
  request_handler :: APIRequestHandler
  subpath :: string

text \<open>\<open>path\<close> is a string or \<open>None\<close>; an empty string is false like \<open>None\<close>.\<close>

definition full_path :: "SubpathClient \<Rightarrow> string option \<Rightarrow> string" where
  "full_path self path =
     (case path of
        None \<Rightarrow> subpath self
      | Some p \<Rightarrow> if p \<noteq> [] then subpath self @ ''/'' @ p else subpath self)"

definition SubpathClient_get ::
  "SubpathClient \<Rightarrow> transport \<Rightarrow> string option \<Rightarrow> pyval \<Rightarrow> pyval io" where
  "SubpathClient_get self tr path params =
     io_bind (APIRequestHandler_get (request_handler self) tr (full_path self path) params)
       (\<lambda>response.
          silent (Inr (case response of
                         PList xs \<Rightarrow> PDict [(''items'', response)]
                       | _ \<Rightarrow> response)))"

section \<open>models.py\<close>

text \<open>
  \<open>BaseResponse(items=...)\<close> accepts a list of dictionaries, and
  \<open>PaginatedResponse\<close> also a dictionary or \<open>None\<close> as \<open>next_page_params\<close>; any other
  value fails the validation of the model class, which the validation library performs
  from the annotations.
\<close>

record BaseResponse =
  items :: "dict list"

record PaginatedResponse = BaseResponse +
  next_page_params :: "dict option"

fun dicts_of :: "pyval list \<Rightarrow> dict list option" where
  "dicts_of [] = Some []"
| "dicts_of (PDict d # xs) = map_option ((#) d) (dicts_of xs)"
| "dicts_of (_ # xs) = None"

fun new_BaseResponse :: "pyval \<Rightarrow> error + BaseResponse" where
  "new_BaseResponse (PList xs) =
     (case dicts_of xs of
        None \<Rightarrow> Inl ValidationError
      | Some ds \<Rightarrow> Inr \<lparr>items = ds\<rparr>)"
| "new_BaseResponse _ = Inl ValidationError"

fun new_PaginatedResponse :: "dict list \<Rightarrow> pyval \<Rightarrow> error + PaginatedResponse" where
  "new_PaginatedResponse ds PNone = Inr \<lparr>items = ds, next_page_params = None\<rparr>"
| "new_PaginatedResponse ds (PDict d) = Inr \<lparr>items = ds, next_page_params = Some d\<rparr>"
| "new_PaginatedResponse ds _ = Inl ValidationError"

section \<open>Calling a method\<close>

text \<open>
  A method is called with positional arguments and keyword arguments, after \<open>self\<close>.
  Its signature lists the parameters after \<open>self\<close>, each with its default if it has
  one, and says whether it ends in \<open>**kwargs\<close>. Binding fills the parameters from the
  positional arguments, then from the keywords, then from the defaults; a keyword that
  names no parameter goes to \<open>**kwargs\<close>. Too many positional arguments, a parameter
  given twice, an unknown keyword without \<open>**kwargs\<close> and a missing argument are
  each a \<open>TypeError\<close>, raised before the body runs.
\<close>

record signature =
  sig_params :: "(string \<times> pyval option) list"
  sig_var_kw :: bool

fun bind_positional :: "(string \<times> pyval option) list \<Rightarrow> pyval list \<Rightarrow> error + dict" where
  "bind_positional ps [] = Inr []"
| "bind_positional [] (a # rest) = Inl TypeError"
| "bind_positional (p # ps) (a # rest) =
     ebind (bind_positional ps rest) (\<lambda>env. Inr ((fst p, a) # env))"

fun bind_keywords ::
  "string list \<Rightarrow> bool \<Rightarrow> dict \<Rightarrow> dict \<times> dict \<Rightarrow> error + dict \<times> dict" where
  "bind_keywords names var_kw [] (env, extra) = Inr (env, extra)"
| "bind_keywords names var_kw ((k, v) # kws) (env, extra) =
     (if k \<in> set names then
        (if map_of env k \<noteq> None then Inl TypeError
         else bind_keywords names var_kw kws (env @ [(k, v)], extra))
      else if var_kw then bind_keywords names var_kw kws (env, extra @ [(k, v)])
      else Inl TypeError)"

fun bind_defaults :: "(string \<times> pyval option) list \<Rightarrow> dict \<Rightarrow> error + dict" where
  "bind_defaults [] env = Inr env"
| "bind_defaults ((n, dflt) # ps) env =
     (case map_of env n of
        Some v \<Rightarrow> bind_defaults ps env
      | None \<Rightarrow>
          (case dflt of
             None \<Rightarrow> Inl TypeError
           | Some v \<Rightarrow> bind_defaults ps (env @ [(n, v)])))"

definition bind :: "signature \<Rightarrow> pyval list \<Rightarrow> dict \<Rightarrow> error + dict \<times> dict" where
  "bind sg args kwargs =
     ebind (bind_positional (sig_params sg) args) (\<lambda>env.
     ebind (bind_keywords (map fst (sig_params sg)) (sig_var_kw sg) kwargs (env, []))
       (\<lambda>(env, extra).
     ebind (bind_defaults (sig_params sg) env) (\<lambda>env. Inr (env, extra))))"

text \<open>
  The value of a bound parameter. After a successful \<open>bind\<close> every parameter of the
  signature is bound (lemma \<open>bind_binds_every_parameter\<close>), so the \<open>None\<close> case is
  not reached.
\<close>

definition arg :: "dict \<Rightarrow> string \<Rightarrow> pyval" where
  "arg env n = (case map_of env n of Some v \<Rightarrow> v | None \<Rightarrow> PNone)"

text \<open>\<open>kwargs.pop(k, default)\<close>, for its result.\<close>

definition pop_or :: "dict \<Rightarrow> string \<Rightarrow> pyval \<Rightarrow> pyval" where
  "pop_or kwargs k dflt = (case map_of kwargs k of Some v \<Rightarrow> v | None \<Rightarrow> dflt)"

type_synonym 'a py_method =
  "SubpathClient \<Rightarrow> transport \<Rightarrow> pyval list \<Rightarrow> dict \<Rightarrow> 'a io"

section \<open>utils.py\<close>

text \<open>
  The wrapper of the decorator \<open>paginated\<close>: it reads \<open>next_page_params\<close> from the
  keyword arguments, calls the wrapped function with the positional arguments and the
  single keyword \<open>params\<close>, and builds the \<open>PaginatedResponse\<close>.
\<close>

definition paginated :: "(BaseResponse \<times> pyval) py_method \<Rightarrow> PaginatedResponse py_method" where
  "paginated func self tr args kwargs =
     (let params = pop_or kwargs ''next_page_params'' (PDict [])
      in io_bind (func self tr args [(''params'', params)])
           (\<lambda>(base_response, next_params).
              silent (new_PaginatedResponse (items base_response) next_params)))"

section \<open>The resource clients\<close>

text \<open>
  \<open>if v: params[k] = validate(v)\<close>, the step that most filter arguments go through:
  the validator runs first, then the assignment.
\<close>

definition set_validated ::
  "pyval \<Rightarrow> string \<Rightarrow> (pyval \<Rightarrow> error + pyval) \<Rightarrow> pyval \<Rightarrow> error + pyval" where
  "set_validated params k validate v =
     (if truthy v then ebind (validate v) (\<lambda>joined. py_setitem params k joined)
      else Inr params)"

text \<open>
  \<open>return BaseResponse(items=response["items"]), response["next_page_params"]\<close>, the
  last line of most paginated methods.
\<close>

definition items_and_next_page :: "pyval \<Rightarrow> error + BaseResponse \<times> pyval" where
  "items_and_next_page response =
     ebind (py_getitem response ''items'') (\<lambda>its.
     ebind (new_BaseResponse its) (\<lambda>base_response.
     ebind (py_getitem response ''next_page_params'') (\<lambda>next_params.
     Inr (base_response, next_params))))"

subsection \<open>subclients/blocks.py\<close>

definition BlocksClient_get_blocks :: "(BaseResponse \<times> pyval) py_method" where
  "BlocksClient_get_blocks self tr args kwargs =
     io_bind (silent (bind
        \<lparr>sig_params = [(''block_type'', Some PNone), (''params'', Some PNone)],
         sig_var_kw = False\<rparr> args kwargs)) (\<lambda>(env, extra).
     let block_type = arg env ''block_type'';
         params = py_or (arg env ''params'') (PDict [])
     in io_bind (silent (set_validated params ''type'' validate_block_type block_type))
          (\<lambda>params.
        io_bind (SubpathClient_get self tr None params) (\<lambda>response.
        silent (items_and_next_page response))))"

subsection \<open>subclients/transactions.py\<close>

definition TransactionsClient_get_transactions :: "(BaseResponse \<times> pyval) py_method" where
  "TransactionsClient_get_transactions self tr args kwargs =
     io_bind (silent (bind
        \<lparr>sig_params = [(''txn_filter'', Some PNone), (''txn_type'', Some PNone),
                       (''method'', Some PNone), (''params'', Some PNone)],
         sig_var_kw = False\<rparr> args kwargs)) (\<lambda>(env, extra).
     let txn_filter = arg env ''txn_filter'';
         txn_type = arg env ''txn_type''; method = arg env ''method'';
         params = arg env ''params''
     in io_bind (silent
          (if truthy params then
             ebind (set_validated params ''filter'' validate_txn_filter txn_filter) (\<lambda>params.
             ebind (set_validated params ''tx_type'' validate_txn_type txn_type) (\<lambda>params.
             set_validated params ''method'' validate_method method))
           else Inr params))
          (\<lambda>params.
        io_bind (SubpathClient_get self tr None params) (\<lambda>response.
        silent (items_and_next_page response))))"

subsection \<open>subclients/smart_contracts.py\<close>

definition SmartContractsClient_get_smart_contracts :: "(BaseResponse \<times> pyval) py_method" where
  "SmartContractsClient_get_smart_contracts self tr args kwargs =
     io_bind (silent (bind
        \<lparr>sig_params = [(''query'', None), (''contract_filters'', Some PNone)],
         sig_var_kw = False\<rparr> args kwargs)) (\<lambda>(env, extra).
     let query = arg env ''query'';
         contract_filters = arg env ''contract_filters'';
         params = PDict [(''q'', query)]
     in io_bind (silent
          (set_validated params ''filter'' validate_contract_filters contract_filters))
          (\<lambda>params.
        io_bind (SubpathClient_get self tr None params) (\<lambda>response.
        silent (items_and_next_page response))))"

subsection \<open>subclients/tokens.py\<close>

definition TokensClient_get_tokens :: "(BaseResponse \<times> pyval) py_method" where
  "TokensClient_get_tokens self tr args kwargs =
     io_bind (silent (bind
        \<lparr>sig_params = [(''name_query'', None), (''token_type'', Some PNone),
                       (''params'', Some PNone)],
         sig_var_kw = False\<rparr> args kwargs)) (\<lambda>(env, extra).
     let name_query = arg env ''name_query'';
         token_type = arg env ''token_type'';
         params = py_or (arg env ''params'') (PDict [])
     in io_bind (silent
          (ebind (py_setitem params ''q'' name_query) (\<lambda>params.
           set_validated params ''type'' validate_token_type token_type)))
          (\<lambda>params.
        io_bind (SubpathClient_get self tr None params) (\<lambda>response.
        silent (items_and_next_page response))))"

subsection \<open>subclients/addresses.py\<close>

text \<open>
  \<open>_get_address_txns(address, endpoint, params, txn_filter)\<close>, always called with
  four positional arguments.
\<close>

definition get_address_txns ::
  "SubpathClient \<Rightarrow> transport \<Rightarrow> pyval \<Rightarrow> string \<Rightarrow> pyval \<Rightarrow> pyval \<Rightarrow> (pyval \<times> pyval) io" where
  "get_address_txns self tr address endpoint params txn_filter =
     io_bind (silent
        (if txn_filter \<noteq> PNone then
           ebind (validate_address_txn_filter txn_filter) (\<lambda>txn_filter.
           py_setitem params ''filter'' txn_filter)
         else Inr params)) (\<lambda>params.
     io_bind (silent (py_format address)) (\<lambda>a.
     io_bind (SubpathClient_get self tr (Some (a @ ''/'' @ endpoint)) params) (\<lambda>response.
     silent
       (ebind (py_getitem response ''items'') (\<lambda>its.
        ebind (py_getitem response ''next_page_params'') (\<lambda>next_params.
        Inr (its, next_params)))))))"

definition AddressesClient_get_transactions :: "(BaseResponse \<times> pyval) py_method" where
  "AddressesClient_get_transactions self tr args kwargs =
     io_bind (silent (bind
        \<lparr>sig_params = [(''address'', None), (''txn_filter'', Some PNone)],
         sig_var_kw = True\<rparr> args kwargs)) (\<lambda>(env, extra).
     let address = arg env ''address'';
         txn_filter = arg env ''txn_filter'';
         params = pop_or extra ''params'' (PDict [])
     in io_bind (get_address_txns self tr address ''transactions'' params txn_filter)
          (\<lambda>(its, next_params).
        silent (ebind (new_BaseResponse its) (\<lambda>base_response.
                Inr (base_response, next_params)))))"

definition AddressesClient_get_token_transfers :: "(BaseResponse \<times> pyval) py_method" where
  "AddressesClient_get_token_transfers self tr args kwargs =
     io_bind (silent (bind
        \<lparr>sig_params = [(''address'', None), (''token_type'', Some PNone),
                       (''txn_filter'', Some PNone), (''token'', Some PNone)],
         sig_var_kw = True\<rparr> args kwargs)) (\<lambda>(env, extra).
     let address = arg env ''address'';
         token_type = arg env ''token_type'';
         txn_filter = arg env ''txn_filter'';
         token = arg env ''token'';
         params = pop_or extra ''params'' (PDict [])
     in io_bind (silent
          (ebind (set_validated params ''token_type'' validate_token_type token_type)
             (\<lambda>params.
           ebind (set_validated params ''filter'' validate_address_txn_filter txn_filter)
             (\<lambda>params.
           if truthy token then py_setitem params ''token'' token else Inr params))))
          (\<lambda>params.
        io_bind (silent (py_format address)) (\<lambda>a.
        io_bind (SubpathClient_get self tr (Some (a @ ''/token-transfers'')) params)
          (\<lambda>response.
        silent (items_and_next_page response)))))"

definition AddressesClient_get_internal_transactions :: "(BaseResponse \<times> pyval) py_method" where
  "AddressesClient_get_internal_transactions self tr args kwargs =
     io_bind (silent (bind
        \<lparr>sig_params = [(''address'', None), (''txn_filter'', Some PNone)],
         sig_var_kw = True\<rparr> args kwargs)) (\<lambda>(env, extra).
     let address = arg env ''address'';
         txn_filter = arg env ''txn_filter'';
         params = pop_or extra ''params'' (PDict [])
     in io_bind
          (get_address_txns self tr address ''internal-transactions'' params txn_filter)
          (\<lambda>(its, next_params).
        silent (ebind (new_BaseResponse its) (\<lambda>base_response.
                Inr (base_response, next_params)))))"

definition AddressesClient_get_tokens :: "(BaseResponse \<times> pyval) py_method" where
  "AddressesClient_get_tokens self tr args kwargs =
     io_bind (silent (bind
        \<lparr>sig_params = [(''address'', None), (''token_type'', Some PNone)],
         sig_var_kw = True\<rparr> args kwargs)) (\<lambda>(env, extra).
     let address = arg env ''address'';
         token_type = arg env ''token_type'';
         params = pop_or extra ''params'' (PDict [])
     in io_bind (silent (set_validated params ''type'' validate_token_type token_type))
          (\<lambda>params.
        io_bind (silent (py_format address)) (\<lambda>a.
        io_bind (SubpathClient_get self tr (Some (a @ ''/tokens'')) params) (\<lambda>response.
        silent (items_and_next_page response)))))"

subsection \<open>client.py\<close>

text \<open>
  \<open>Client()\<close> builds one request handler on \<open>BASE_URL\<close>, with the default timeout of
  60 seconds, and each resource client on its subpath.
\<close>

definition BASE_URL :: string where
  "BASE_URL = ''https://api.scan.pulsechain.com/api/v2''"

definition Client_request_handler :: APIRequestHandler where
  "Client_request_handler = \<lparr>base_url = BASE_URL, timeout = 60\<rparr>"

definition Client_addresses :: SubpathClient where
  "Client_addresses = \<lparr>request_handler = Client_request_handler, subpath = ''addresses''\<rparr>"

definition Client_transactions :: SubpathClient where
  "Client_transactions =
     \<lparr>request_handler = Client_request_handler, subpath = ''transactions''\<rparr>"

definition Client_tokens :: SubpathClient where
  "Client_tokens = \<lparr>request_handler = Client_request_handler, subpath = ''tokens''\<rparr>"

definition Client_blocks :: SubpathClient where
  "Client_blocks = \<lparr>request_handler = Client_request_handler, subpath = ''blocks''\<rparr>"

definition Client_smart_contracts :: SubpathClient where
  "Client_smart_contracts =
     \<lparr>request_handler = Client_request_handler, subpath = ''smart-contracts''\<rparr>"

section \<open>Servers for the examples\<close>

text \<open>
  Three servers: one answers every request with status 200 and one page of one
  record, one with status 200 and a bare list, and one lets every request time out.
\<close>

definition one_page :: pyval where
  "one_page =
     PDict [(''items'', PList [PDict [(''a'', PInt 1)]]), (''next_page_params'', PNone)]"

definition ok_server :: transport where
  "ok_server req = Responds \<lparr>status_code = 200, body_text = [], body_json = Some one_page\<rparr>"

definition list_server :: transport where
  "list_server req =
     Responds \<lparr>status_code = 200, body_text = [],
               body_json = Some (PList [PDict [(''a'', PInt 1)]])\<rparr>"


section \<open>Properties of the validators\<close>

lemma check_allowed_strs:
  "check_allowed valid msg (map PStr xs) =
     (if set xs \<subseteq> set valid then Inr () else Inl (PulseChainBadParamException msg))"
  by (induction xs) auto

lemma strs_of_strs: "strs_of (map PStr xs) = Some xs"
  by (induction xs) auto

lemma py_join_strs: "py_join sep (PList (map PStr xs)) = Inr (PStr (join sep xs))"
  by (simp add: py_join_def ebind_def strs_of_strs)

lemma validate_list_strs:
  "ebind (py_iter (PList (map PStr xs))) (\<lambda>ys.
     ebind (check_allowed valid msg ys) (\<lambda>_. py_join sep (PList (map PStr xs)))) =
   (if set xs \<subseteq> set valid then Inr (PStr (join sep xs))
    else Inl (PulseChainBadParamException msg))"
  by (simp add: ebind_def check_allowed_strs py_join_strs)

section \<open>Helper lemmas\<close>

lemma show_int_503: "show_int 503 = ''503''"
  by code_simp

lemma fst_silent [simp]: "fst (silent r) = []"
  by (simp add: silent_def)

lemma snd_silent [simp]: "snd (silent r) = r"
  by (simp add: silent_def)

lemma io_bind_Inl [simp]: "io_bind (l, Inl e) f = (l, Inl e)"
  by (simp add: io_bind_def)

lemma io_bind_silent_Inl [simp]: "io_bind (silent (Inl e)) f = ([], Inl e)"
  by (simp add: io_bind_def silent_def)

lemma io_bind_silent_Inr [simp]: "io_bind (silent (Inr x)) f = f x"
  by (simp add: io_bind_def silent_def)

lemma io_bind_then_silent:
  "snd (io_bind m (\<lambda>x. silent (g x))) = ebind (snd m) g"
  "fst (io_bind m (\<lambda>x. silent (g x))) = fst m"
  by (simp_all add: io_bind_def ebind_def split: sum.splits)

subsection \<open>binding\<close>

lemma bind_positional_error: "bind_positional ps args = Inl e \<Longrightarrow> e = TypeError"
  by (induction ps args arbitrary: e rule: bind_positional.induct)
     (auto simp: ebind_def split: sum.splits)

lemma bind_keywords_error:
  "bind_keywords names var_kw kws acc = Inl e \<Longrightarrow> e = TypeError"
  by (induction names var_kw kws acc rule: bind_keywords.induct)
     (auto split: if_splits)

lemma bind_defaults_error: "bind_defaults ps env = Inl e \<Longrightarrow> e = TypeError"
  by (induction ps env rule: bind_defaults.induct)
     (auto split: option.splits)

lemma bind_error: "bind sg args kwargs = Inl e \<Longrightarrow> e = TypeError"
  by (auto simp: bind_def ebind_def split: sum.splits prod.splits
      dest: bind_positional_error bind_keywords_error bind_defaults_error)

lemma bind_unknown_keyword:
  "k \<notin> fst ` set ps \<Longrightarrow>
   bind \<lparr>sig_params = ps, sig_var_kw = False\<rparr> args ((k, v) # kws) = Inl TypeError"
  by (auto simp: bind_def ebind_def split: sum.splits dest: bind_positional_error)

lemma bind_keywords_keeps:
  "bind_keywords names var_kw kws acc = Inr (env', extra') \<Longrightarrow> map_of (fst acc) n \<noteq> None
   \<Longrightarrow> map_of env' n \<noteq> None"
  by (induction names var_kw kws acc rule: bind_keywords.induct)
     (auto split: if_splits simp: map_add_Some_iff)

lemma bind_defaults_binds:
  "bind_defaults ps env = Inr env' \<Longrightarrow>
   (n \<in> fst ` set ps \<or> map_of env n \<noteq> None) \<Longrightarrow> map_of env' n \<noteq> None"
  by (induction ps env rule: bind_defaults.induct)
     (auto split: option.splits if_splits simp: map_add_Some_iff)

lemma bind_binds_every_parameter:
  "bind sg args kwargs = Inr (env, extra) \<Longrightarrow> n \<in> fst ` set (sig_params sg)
   \<Longrightarrow> \<exists>v. map_of env n = Some v \<and> arg env n = v"
  by (auto simp: bind_def ebind_def arg_def split: sum.splits prod.splits option.splits
      dest!: bind_defaults_binds [where n = n])

lemma py_getitem_not_bad_param:
  "py_getitem v k \<noteq> Inl (PulseChainBadParamException m)"
  by (cases v) (auto split: option.splits)

lemma new_BaseResponse_not_bad_param:
  "new_BaseResponse v \<noteq> Inl (PulseChainBadParamException m)"
  by (cases v) (auto split: option.splits)

lemma new_PaginatedResponse_not_bad_param:
  "new_PaginatedResponse ds v \<noteq> Inl (PulseChainBadParamException m)"
  by (cases v) auto

lemma py_format_not_bad_param:
  "py_format v \<noteq> Inl (PulseChainBadParamException m)"
  by (cases v) auto

lemma items_and_next_page_not_bad_param:
  "items_and_next_page response \<noteq> Inl (PulseChainBadParamException m)"
  using py_getitem_not_bad_param new_BaseResponse_not_bad_param
  by (auto simp: items_and_next_page_def ebind_def split: sum.splits)

lemma check_result_not_bad_param:
  "check_result r \<noteq> Inl (PulseChainBadParamException m)"
  by (auto simp: check_result_def response_json_def new_PulseChainBadRequestException_def
      new_PulseChainUnprocessableEntityException_def ebind_def
      split: option.splits sum.splits dest: py_getitem_not_bad_param [THEN notE])

lemma APIRequestHandler_get_not_bad_param:
  "snd (APIRequestHandler_get h tr path params) \<noteq> Inl (PulseChainBadParamException m)"
  by (auto simp: APIRequestHandler_get_def Let_def check_result_not_bad_param
      split: transport_result.splits)

lemma SubpathClient_get_not_bad_param:
  "snd (SubpathClient_get self tr path params) \<noteq> Inl (PulseChainBadParamException m)"
  using APIRequestHandler_get_not_bad_param [of "request_handler self" tr "full_path self path" params m]
  by (auto simp: SubpathClient_get_def io_bind_then_silent ebind_def split: sum.splits)


lemma fetch_not_bad_param:
  assumes "\<And>response. g response \<noteq> Inl (PulseChainBadParamException m)"
  shows "snd (io_bind (SubpathClient_get self tr path params) (\<lambda>response. silent (g response)))
           \<noteq> Inl (PulseChainBadParamException m)"
  using assms SubpathClient_get_not_bad_param [of self tr path params m]
  by (auto simp: io_bind_then_silent ebind_def split: sum.splits)

lemma format_then_not_bad_param:
  assumes "\<And>a. snd (h a) \<noteq> Inl (PulseChainBadParamException m)"
  shows "snd (io_bind (silent (py_format address)) h) \<noteq> Inl (PulseChainBadParamException m)"
  using assms py_format_not_bad_param [of address m]
  by (cases "py_format address") auto

lemma io_bind_then_silent2:
  "fst (io_bind c (\<lambda>(a, b). silent (g a b))) = fst c"
  "snd (io_bind c (\<lambda>(a, b). silent (g a b))) = ebind (snd c) (\<lambda>(a, b). g a b)"
  by (simp_all add: io_bind_def ebind_def split: sum.splits prod.splits)

lemma quiet_before_request:
  assumes "\<And>x. snd (f x) \<noteq> Inl (PulseChainBadParamException m)"
  shows "snd (io_bind (silent r) f) = Inl (PulseChainBadParamException m)
         \<longrightarrow> fst (io_bind (silent r) f) = []"
  using assms by (cases r) auto

lemma quiet_after_bind:
  assumes "\<And>env extra. snd (f (env, extra)) = Inl (PulseChainBadParamException m)
             \<longrightarrow> fst (f (env, extra)) = []"
  shows "snd (io_bind (silent (bind sg args kwargs)) f) = Inl (PulseChainBadParamException m)
         \<longrightarrow> fst (io_bind (silent (bind sg args kwargs)) f) = []"
  using assms by (cases "bind sg args kwargs") auto

lemma quiet_then_BaseResponse:
  assumes "snd c = Inl (PulseChainBadParamException m) \<longrightarrow> fst c = []"
  shows "snd (io_bind c (\<lambda>(its, next_params).
                silent (ebind (new_BaseResponse its) (\<lambda>base_response.
                        Inr (base_response, next_params)))))
           = Inl (PulseChainBadParamException m)
         \<longrightarrow> fst (io_bind c (\<lambda>(its, next_params).
                silent (ebind (new_BaseResponse its) (\<lambda>base_response.
                        Inr (base_response, next_params))))) = []"
  using assms new_BaseResponse_not_bad_param
  by (auto simp: io_bind_then_silent2 ebind_def split: sum.splits prod.splits)

lemma paginated_quiet:
  assumes "\<And>p. snd (func self tr args [(''params'', p)]) = Inl (PulseChainBadParamException m)
             \<longrightarrow> fst (func self tr args [(''params'', p)]) = []"
  shows "snd (paginated func self tr args kwargs) = Inl (PulseChainBadParamException m)
         \<longrightarrow> fst (paginated func self tr args kwargs) = []"
  using assms [of "pop_or kwargs ''next_page_params'' (PDict [])"]
    new_PaginatedResponse_not_bad_param
  by (auto simp: paginated_def io_bind_then_silent2 ebind_def split: sum.splits prod.splits)

lemma get_address_txns_quiet:
  "snd (get_address_txns self tr address endpoint params txn_filter)
     = Inl (PulseChainBadParamException m)
   \<longrightarrow> fst (get_address_txns self tr address endpoint params txn_filter) = []"
  unfolding get_address_txns_def
proof (rule quiet_before_request, rule format_then_not_bad_param, rule fetch_not_bad_param)
  fix response
  show "ebind (py_getitem response ''items'') (\<lambda>its.
          ebind (py_getitem response ''next_page_params'') (\<lambda>next_params.
          Inr (its, next_params))) \<noteq> Inl (PulseChainBadParamException m)"
    using py_getitem_not_bad_param by (auto simp: ebind_def split: sum.splits)
qed

lemma BlocksClient_get_blocks_quiet:
  "snd (BlocksClient_get_blocks self tr args kwargs) = Inl (PulseChainBadParamException m)
   \<longrightarrow> fst (BlocksClient_get_blocks self tr args kwargs) = []"
  unfolding BlocksClient_get_blocks_def Let_def
  by (rule quiet_after_bind, unfold prod.case, rule quiet_before_request,
      rule fetch_not_bad_param, rule items_and_next_page_not_bad_param)

lemma TransactionsClient_get_transactions_quiet:
  "snd (TransactionsClient_get_transactions self tr args kwargs)
     = Inl (PulseChainBadParamException m)
   \<longrightarrow> fst (TransactionsClient_get_transactions self tr args kwargs) = []"
  unfolding TransactionsClient_get_transactions_def Let_def
  by (rule quiet_after_bind, unfold prod.case, rule quiet_before_request,
      rule fetch_not_bad_param, rule items_and_next_page_not_bad_param)

lemma SmartContractsClient_get_smart_contracts_quiet:
  "snd (SmartContractsClient_get_smart_contracts self tr args kwargs)
     = Inl (PulseChainBadParamException m)
   \<longrightarrow> fst (SmartContractsClient_get_smart_contracts self tr args kwargs) = []"
  unfolding SmartContractsClient_get_smart_contracts_def Let_def
  by (rule quiet_after_bind, unfold prod.case, rule quiet_before_request,
      rule fetch_not_bad_param, rule items_and_next_page_not_bad_param)

lemma TokensClient_get_tokens_quiet:
  "snd (TokensClient_get_tokens self tr args kwargs) = Inl (PulseChainBadParamException m)
   \<longrightarrow> fst (TokensClient_get_tokens self tr args kwargs) = []"
  unfolding TokensClient_get_tokens_def Let_def
  by (rule quiet_after_bind, unfold prod.case, rule quiet_before_request,
      rule fetch_not_bad_param, rule items_and_next_page_not_bad_param)

lemma AddressesClient_get_transactions_quiet:
  "snd (AddressesClient_get_transactions self tr args kwargs)
     = Inl (PulseChainBadParamException m)
   \<longrightarrow> fst (AddressesClient_get_transactions self tr args kwargs) = []"
  unfolding AddressesClient_get_transactions_def Let_def
  by (rule quiet_after_bind, unfold prod.case, rule quiet_then_BaseResponse,
      rule get_address_txns_quiet)

lemma AddressesClient_get_internal_transactions_quiet:
  "snd (AddressesClient_get_internal_transactions self tr args kwargs)
     = Inl (PulseChainBadParamException m)
   \<longrightarrow> fst (AddressesClient_get_internal_transactions self tr args kwargs) = []"
  unfolding AddressesClient_get_internal_transactions_def Let_def
  by (rule quiet_after_bind, unfold prod.case, rule quiet_then_BaseResponse,
      rule get_address_txns_quiet)

lemma AddressesClient_get_token_transfers_quiet:
  "snd (AddressesClient_get_token_transfers self tr args kwargs)
     = Inl (PulseChainBadParamException m)
   \<longrightarrow> fst (AddressesClient_get_token_transfers self tr args kwargs) = []"
  unfolding AddressesClient_get_token_transfers_def Let_def
  by (rule quiet_after_bind, unfold prod.case, rule quiet_before_request,
      rule format_then_not_bad_param, rule fetch_not_bad_param,
      rule items_and_next_page_not_bad_param)

lemma AddressesClient_get_tokens_quiet:
  "snd (AddressesClient_get_tokens self tr args kwargs) = Inl (PulseChainBadParamException m)
   \<longrightarrow> fst (AddressesClient_get_tokens self tr args kwargs) = []"
  unfolding AddressesClient_get_tokens_def Let_def
  by (rule quiet_after_bind, unfold prod.case, rule quiet_before_request,
      rule format_then_not_bad_param, rule fetch_not_bad_param,
      rule items_and_next_page_not_bad_param)

lemma map_of_only_key:
  "map_of (filter (\<lambda>kv. fst kv = k) kws) k = map_of kws k"
  by (induction kws) auto

lemma fst_APIRequestHandler_get:
  "fst (APIRequestHandler_get h tr path params) =
     [\<lparr>req_url = base_url h @ ''/'' @ path, req_params = params, req_timeout = timeout h\<rparr>]"
  by (simp add: APIRequestHandler_get_def Let_def split: transport_result.splits)

lemma fst_fetch:
  "fst (io_bind (SubpathClient_get self tr path params) (\<lambda>response. silent (g response))) =
     [\<lparr>req_url = base_url (request_handler self) @ ''/'' @ full_path self path,
       req_params = params, req_timeout = timeout (request_handler self)\<rparr>]"
  by (simp add: io_bind_then_silent SubpathClient_get_def fst_APIRequestHandler_get)

lemma fst_paginated:
  "fst (paginated func self tr args kwargs) =
     fst (func self tr args [(''params'', pop_or kwargs ''next_page_params'' (PDict []))])"
  by (simp add: paginated_def io_bind_then_silent2)

lemmas client_defs =
  Client_blocks_def Client_transactions_def Client_tokens_def Client_addresses_def
  Client_smart_contracts_def Client_request_handler_def BASE_URL_def full_path_def

lemmas call_defs =
  pop_or_def bind_def ebind_def arg_def py_or_def set_validated_def

lemmas eval_defs =
  BlocksClient_get_blocks_def TransactionsClient_get_transactions_def
  TokensClient_get_tokens_def SmartContractsClient_get_smart_contracts_def
  AddressesClient_get_transactions_def AddressesClient_get_token_transfers_def
  AddressesClient_get_internal_transactions_def AddressesClient_get_tokens_def
  get_address_txns_def call_defs py_join_def
  validate_block_type_def validate_txn_type_def validate_txn_filter_def
  validate_address_txn_filter_def validate_method_def validate_token_type_def
  validate_contract_filters_def

section \<open>The claims\<close>

text \<open>
  C5, as amended. On a list of strings, every list validator raises
  \<open>PulseChainBadParamException\<close> when some element is outside its allowed set, and
  otherwise returns the elements joined: with \<open>","\<close> for \<open>block_type\<close>, \<open>txn_type\<close>,
  \<open>method\<close> and \<open>token_type\<close>, and with \<open>" | "\<close>, a pipe between two spaces, for the
  transaction filter and the contract filters. The address filter, a single string, is
  returned unchanged when it is \<open>to\<close> or \<open>from\<close> and raises the same exception
  otherwise.
\<close>

theorem validators_accept_and_join:
  "validate_block_type (PList (map PStr xs)) =
     (if set xs \<subseteq> {''block'', ''uncle'', ''reorg''} then Inr (PStr (join '','' xs))
      else Inl (PulseChainBadParamException block_type_message))
   \<and> validate_txn_type (PList (map PStr xs)) =
     (if set xs \<subseteq> {''token_transfer'', ''contract_creation'', ''contract_call'',
                    ''coin_transfer'', ''token_creation''}
      then Inr (PStr (join '','' xs))
      else Inl (PulseChainBadParamException txn_type_message))
   \<and> validate_method (PList (map PStr xs)) =
     (if set xs \<subseteq> {''approve'', ''transfer'', ''multicall'', ''mint'', ''commit''}
      then Inr (PStr (join '','' xs))
      else Inl (PulseChainBadParamException method_message))
   \<and> validate_token_type (PList (map PStr xs)) =
     (if set xs \<subseteq> {''ERC-20'', ''ERC-721'', ''ERC-1155''} then Inr (PStr (join '','' xs))
      else Inl (PulseChainBadParamException token_type_message))
   \<and> validate_txn_filter (PList (map PStr xs)) =
     (if set xs \<subseteq> {''pending'', ''validated''} then Inr (PStr (join '' | '' xs))
      else Inl (PulseChainBadParamException txn_filter_message))
   \<and> validate_contract_filters (PList (map PStr xs)) =
     (if set xs \<subseteq> {''vyper'', ''solidity'', ''yul''} then Inr (PStr (join '' | '' xs))
      else Inl (PulseChainBadParamException contract_filters_message))
   \<and> validate_address_txn_filter (PStr s) =
     (if s \<in> {''to'', ''from''} then Inr (PStr s)
      else Inl (PulseChainBadParamException address_txn_filter_message))"
proof -
  have a: "validate_address_txn_filter (PStr s) =
     (if s \<in> {''to'', ''from''} then Inr (PStr s)
      else Inl (PulseChainBadParamException address_txn_filter_message))"
    by (simp add: validate_address_txn_filter_def ebind_def)
  show ?thesis
    unfolding validate_block_type_def validate_txn_type_def validate_method_def
      validate_token_type_def validate_txn_filter_def validate_contract_filters_def
      validate_list_strs
    using a by simp
qed

theorem validators_accept_and_join_witness:
  "validate_block_type (PList [PStr ''block'', PStr ''uncle'']) = Inr (PStr ''block,uncle'')
   \<and> validate_txn_filter (PList [PStr ''pending'', PStr ''validated'']) =
       Inr (PStr ''pending | validated'')
   \<and> validate_token_type (PList [PStr ''ERC-20'', PStr ''ERC-777'']) =
       Inl (PulseChainBadParamException token_type_message)
   \<and> validate_address_txn_filter (PStr ''sideways'') =
       Inl (PulseChainBadParamException address_txn_filter_message)"
  using validators_accept_and_join [of "[''block'', ''uncle'']" "''sideways''"]
    validators_accept_and_join [of "[''pending'', ''validated'']" "''to''"]
    validators_accept_and_join [of "[''ERC-20'', ''ERC-777'']" "''to''"]
  by simp

text \<open>
  C5, as stated, fails on the separator: the two accepted transaction filters are not
  joined by the pipe character alone.
\<close>

theorem pipe_separator_counterexample:
  "validate_txn_filter (PList [PStr ''pending'', PStr ''validated'']) =
     Inr (PStr ''pending | validated'')
   \<and> ''pending | validated'' \<noteq> join ''|'' [''pending'', ''validated'']"
  by (simp add: validate_txn_filter_def ebind_def py_join_def)

text \<open>
  C6. \<open>_check_result\<close> maps the status of a response: 200 returns the decoded body;
  400 and 422, on a body that is an object with a \<open>message\<close> field, raise the bad-request
  and the unprocessable-entity exception carrying that message; 500 raises the server
  error whatever the body is; every other status raises the unknown exception whose
  text is the status code, a colon and a space, and the raw body. \<open>get\<close> returns what
  \<open>_check_result\<close> makes of the response.
\<close>

theorem check_result_status_mapping:
  "(status_code r = 200 \<and> body_json r = Some j \<longrightarrow> check_result r = Inr j)
   \<and> (status_code r = 400 \<and> body_json r = Some (PDict d) \<and> map_of d ''message'' = Some m
        \<longrightarrow> check_result r = Inl (PulseChainBadRequestException m))
   \<and> (status_code r = 422 \<and> body_json r = Some (PDict d) \<and> map_of d ''message'' = Some m
        \<longrightarrow> check_result r = Inl (PulseChainUnprocessableEntityException m))
   \<and> (status_code r = 500 \<longrightarrow> check_result r = Inl (PulseChainServerError r))
   \<and> (status_code r \<notin> {200, 500, 422, 400}
        \<longrightarrow> check_result r =
            Inl (PulseChainUnknownException (show_int (status_code r) @ '': '' @ body_text r)))
   \<and> (tr \<lparr>req_url = base_url h @ ''/'' @ path, req_params = params, req_timeout = timeout h\<rparr>
          = Responds r
        \<longrightarrow> snd (APIRequestHandler_get h tr path params) = check_result r)"
  by (simp add: check_result_def response_json_def new_PulseChainBadRequestException_def
      new_PulseChainUnprocessableEntityException_def ebind_def APIRequestHandler_get_def)

theorem check_result_status_mapping_witness:
  "check_result \<lparr>status_code = 200, body_text = [], body_json = Some one_page\<rparr> = Inr one_page
   \<and> check_result \<lparr>status_code = 400, body_text = [],
                     body_json = Some (PDict [(''message'', PStr ''bad'')])\<rparr>
       = Inl (PulseChainBadRequestException (PStr ''bad''))
   \<and> check_result \<lparr>status_code = 422, body_text = [],
                     body_json = Some (PDict [(''message'', PStr ''bad'')])\<rparr>
       = Inl (PulseChainUnprocessableEntityException (PStr ''bad''))
   \<and> check_result \<lparr>status_code = 500, body_text = ''oops'', body_json = None\<rparr>
       = Inl (PulseChainServerError \<lparr>status_code = 500, body_text = ''oops'', body_json = None\<rparr>)
   \<and> check_result \<lparr>status_code = 503, body_text = ''down'', body_json = None\<rparr>
       = Inl (PulseChainUnknownException ''503: down'')
   \<and> snd (APIRequestHandler_get Client_request_handler ok_server ''blocks'' (PDict []))
       = Inr one_page"
  using
    check_result_status_mapping
      [of "\<lparr>status_code = 200, body_text = [], body_json = Some one_page\<rparr>" one_page
          "[]" PNone ok_server Client_request_handler "''blocks''" "PDict []"]
    check_result_status_mapping
      [of "\<lparr>status_code = 400, body_text = [],
            body_json = Some (PDict [(''message'', PStr ''bad'')])\<rparr>" PNone
          "[(''message'', PStr ''bad'')]" "PStr ''bad''" ok_server Client_request_handler
          "[]" PNone]
    check_result_status_mapping
      [of "\<lparr>status_code = 422, body_text = [],
            body_json = Some (PDict [(''message'', PStr ''bad'')])\<rparr>" PNone
          "[(''message'', PStr ''bad'')]" "PStr ''bad''" ok_server Client_request_handler
          "[]" PNone]
    check_result_status_mapping
      [of "\<lparr>status_code = 500, body_text = ''oops'', body_json = None\<rparr>" PNone
          "[]" PNone ok_server Client_request_handler "[]" PNone]
    check_result_status_mapping
      [of "\<lparr>status_code = 503, body_text = ''down'', body_json = None\<rparr>" PNone
          "[]" PNone ok_server Client_request_handler "[]" PNone]
  by (simp add: show_int_503 ok_server_def)

text \<open>
  C8. When the request handler returns a bare list, \<open>SubpathClient.get\<close> returns the
  dictionary with that list under \<open>items\<close>; when it returns a dictionary, that
  dictionary is returned unchanged. No request is added.
\<close>

theorem SubpathClient_get_wraps_bare_list:
  "(snd (APIRequestHandler_get (request_handler self) tr (full_path self path) params)
      = Inr (PList xs)
    \<longrightarrow> snd (SubpathClient_get self tr path params) = Inr (PDict [(''items'', PList xs)]))
   \<and> (snd (APIRequestHandler_get (request_handler self) tr (full_path self path) params)
      = Inr (PDict d)
    \<longrightarrow> snd (SubpathClient_get self tr path params) = Inr (PDict d))
   \<and> fst (SubpathClient_get self tr path params)
      = fst (APIRequestHandler_get (request_handler self) tr (full_path self path) params)"
  by (simp add: SubpathClient_get_def io_bind_def silent_def split: sum.splits)

theorem SubpathClient_get_wraps_bare_list_witness:
  "snd (SubpathClient_get Client_blocks list_server None PNone)
     = Inr (PDict [(''items'', PList [PDict [(''a'', PInt 1)]])])
   \<and> snd (SubpathClient_get Client_blocks ok_server None PNone) = Inr one_page"
proof -
  have l: "snd (APIRequestHandler_get (request_handler Client_blocks) list_server
             (full_path Client_blocks None) PNone) = Inr (PList [PDict [(''a'', PInt 1)]])"
    by (simp add: APIRequestHandler_get_def list_server_def check_result_def response_json_def)
  have d: "snd (APIRequestHandler_get (request_handler Client_blocks) ok_server
             (full_path Client_blocks None) PNone) = Inr one_page"
    by (simp add: APIRequestHandler_get_def ok_server_def check_result_def response_json_def)
  show ?thesis
    using SubpathClient_get_wraps_bare_list
            [of Client_blocks list_server None PNone "[PDict [(''a'', PInt 1)]]" "[]"]
          SubpathClient_get_wraps_bare_list
            [of Client_blocks ok_server None PNone "[]"
                "[(''items'', PList [PDict [(''a'', PInt 1)]]), (''next_page_params'', PNone)]"]
          l d
    by (simp add: one_page_def)
qed



text \<open>
  C4. Every call of the paginated \<open>get_smart_contracts\<close>, whatever its positional and
  keyword arguments and whatever the server, raises \<open>TypeError\<close> and issues no request:
  the wrapper passes the keyword \<open>params\<close>, which the signature does not have.
\<close>

theorem get_smart_contracts_always_raises_TypeError:
  "paginated SmartContractsClient_get_smart_contracts self tr args kwargs = ([], Inl TypeError)"
  by (simp add: paginated_def SmartContractsClient_get_smart_contracts_def
      bind_unknown_keyword)

text \<open>
  C3. Two calls of a paginated method whose keyword arguments agree on
  \<open>next_page_params\<close> issue the same requests and return the same result, whatever their
  other keyword arguments are: a call is the same as the call that keeps of its keywords
  only \<open>next_page_params\<close>.
\<close>

theorem paginated_ignores_other_keywords:
  "(map_of kwargs1 ''next_page_params'' = map_of kwargs2 ''next_page_params''
      \<longrightarrow> paginated func self tr args kwargs1 = paginated func self tr args kwargs2)
   \<and> paginated func self tr args kwargs1
       = paginated func self tr args (filter (\<lambda>kv. fst kv = ''next_page_params'') kwargs1)"
  by (simp add: paginated_def pop_or_def map_of_only_key)

theorem paginated_ignores_other_keywords_witness:
  "map_of [(''txn_filter'', PStr ''to'')] ''next_page_params''
     = map_of ([] :: dict) ''next_page_params''
   \<and> paginated AddressesClient_get_transactions Client_addresses ok_server [PStr ''0xabc'']
       [(''txn_filter'', PStr ''to'')]
     = paginated AddressesClient_get_transactions Client_addresses ok_server [PStr ''0xabc''] []
   \<and> fst (paginated AddressesClient_get_transactions Client_addresses ok_server
            [PStr ''0xabc''] [])
     = [\<lparr>req_url = ''https://api.scan.pulsechain.com/api/v2/addresses/0xabc/transactions'',
         req_params = PDict [], req_timeout = 60\<rparr>]"
proof -
  have h: "map_of [(''txn_filter'', PStr ''to'')] ''next_page_params''
             = map_of ([] :: dict) ''next_page_params''"
    by simp
  have l: "fst (paginated AddressesClient_get_transactions Client_addresses ok_server
            [PStr ''0xabc''] [])
     = [\<lparr>req_url = ''https://api.scan.pulsechain.com/api/v2/addresses/0xabc/transactions'',
         req_params = PDict [], req_timeout = 60\<rparr>]"
    by (simp add: fst_paginated AddressesClient_get_transactions_def call_defs
        get_address_txns_def io_bind_then_silent2 fst_fetch client_defs)
  show ?thesis
    using h l paginated_ignores_other_keywords
      [of "[(''txn_filter'', PStr ''to'')]" "[]" AddressesClient_get_transactions
          Client_addresses ok_server "[PStr ''0xabc'']", THEN conjunct1]
    by simp
qed

text \<open>
  C10. For each paginated method that validates a filter argument, a call that ends in
  \<open>PulseChainBadParamException\<close> has issued no request. The paginated
  \<open>get_smart_contracts\<close> never gets as far as its validator; for it the same is stated of
  the method under the decorator as well.
\<close>

theorem invalid_filter_issues_no_request:
  "(snd (paginated BlocksClient_get_blocks self tr args kwargs)
      = Inl (PulseChainBadParamException m)
    \<longrightarrow> fst (paginated BlocksClient_get_blocks self tr args kwargs) = [])
   \<and> (snd (paginated TransactionsClient_get_transactions self tr args kwargs)
      = Inl (PulseChainBadParamException m)
    \<longrightarrow> fst (paginated TransactionsClient_get_transactions self tr args kwargs) = [])
   \<and> (snd (paginated TokensClient_get_tokens self tr args kwargs)
      = Inl (PulseChainBadParamException m)
    \<longrightarrow> fst (paginated TokensClient_get_tokens self tr args kwargs) = [])
   \<and> (snd (paginated AddressesClient_get_transactions self tr args kwargs)
      = Inl (PulseChainBadParamException m)
    \<longrightarrow> fst (paginated AddressesClient_get_transactions self tr args kwargs) = [])
   \<and> (snd (paginated AddressesClient_get_token_transfers self tr args kwargs)
      = Inl (PulseChainBadParamException m)
    \<longrightarrow> fst (paginated AddressesClient_get_token_transfers self tr args kwargs) = [])
   \<and> (snd (paginated AddressesClient_get_internal_transactions self tr args kwargs)
      = Inl (PulseChainBadParamException m)
    \<longrightarrow> fst (paginated AddressesClient_get_internal_transactions self tr args kwargs) = [])
   \<and> (snd (paginated AddressesClient_get_tokens self tr args kwargs)
      = Inl (PulseChainBadParamException m)
    \<longrightarrow> fst (paginated AddressesClient_get_tokens self tr args kwargs) = [])
   \<and> (snd (paginated SmartContractsClient_get_smart_contracts self tr args kwargs)
      = Inl (PulseChainBadParamException m)
    \<longrightarrow> fst (paginated SmartContractsClient_get_smart_contracts self tr args kwargs) = [])
   \<and> (snd (SmartContractsClient_get_smart_contracts self tr args kwargs)
      = Inl (PulseChainBadParamException m)
    \<longrightarrow> fst (SmartContractsClient_get_smart_contracts self tr args kwargs) = [])"
  by (intro conjI paginated_quiet BlocksClient_get_blocks_quiet
      TransactionsClient_get_transactions_quiet SmartContractsClient_get_smart_contracts_quiet
      TokensClient_get_tokens_quiet AddressesClient_get_transactions_quiet
      AddressesClient_get_token_transfers_quiet
      AddressesClient_get_internal_transactions_quiet AddressesClient_get_tokens_quiet)

theorem invalid_filter_issues_no_request_witness:
  "snd (paginated BlocksClient_get_blocks Client_blocks ok_server
          [PList [PStr ''block'', PStr ''aunt'']] [])
     = Inl (PulseChainBadParamException block_type_message)
   \<and> fst (paginated BlocksClient_get_blocks Client_blocks ok_server
          [PList [PStr ''block'', PStr ''aunt'']] []) = []
   \<and> snd (paginated TransactionsClient_get_transactions Client_transactions ok_server
          [PList [PStr ''stuck'']] [(''next_page_params'', PDict [(''block_number'', PInt 100)])])
     = Inl (PulseChainBadParamException txn_filter_message)
   \<and> fst (paginated TransactionsClient_get_transactions Client_transactions ok_server
          [PList [PStr ''stuck'']] [(''next_page_params'', PDict [(''block_number'', PInt 100)])]) = []
   \<and> snd (paginated TokensClient_get_tokens Client_tokens ok_server
          [PStr ''x'', PList [PStr ''ERC-777'']] [])
     = Inl (PulseChainBadParamException token_type_message)
   \<and> fst (paginated TokensClient_get_tokens Client_tokens ok_server
          [PStr ''x'', PList [PStr ''ERC-777'']] []) = []
   \<and> snd (paginated AddressesClient_get_transactions Client_addresses ok_server
          [PStr ''0xabc'', PStr ''sideways''] [])
     = Inl (PulseChainBadParamException address_txn_filter_message)
   \<and> fst (paginated AddressesClient_get_transactions Client_addresses ok_server
          [PStr ''0xabc'', PStr ''sideways''] []) = []
   \<and> snd (paginated AddressesClient_get_token_transfers Client_addresses ok_server
          [PStr ''0xabc'', PList [PStr ''ERC-777'']] [])
     = Inl (PulseChainBadParamException token_type_message)
   \<and> fst (paginated AddressesClient_get_token_transfers Client_addresses ok_server
          [PStr ''0xabc'', PList [PStr ''ERC-777'']] []) = []
   \<and> snd (paginated AddressesClient_get_internal_transactions Client_addresses ok_server
          [PStr ''0xabc'', PStr ''sideways''] [])
     = Inl (PulseChainBadParamException address_txn_filter_message)
   \<and> fst (paginated AddressesClient_get_internal_transactions Client_addresses ok_server
          [PStr ''0xabc'', PStr ''sideways''] []) = []
   \<and> snd (paginated AddressesClient_get_tokens Client_addresses ok_server
          [PStr ''0xabc'', PList [PStr ''ERC-777'']] [])
     = Inl (PulseChainBadParamException token_type_message)
   \<and> fst (paginated AddressesClient_get_tokens Client_addresses ok_server
          [PStr ''0xabc'', PList [PStr ''ERC-777'']] []) = []
   \<and> snd (SmartContractsClient_get_smart_contracts Client_smart_contracts ok_server
          [PStr ''x'', PList [PStr ''rust'']] [])
     = Inl (PulseChainBadParamException contract_filters_message)
   \<and> fst (SmartContractsClient_get_smart_contracts Client_smart_contracts ok_server
          [PStr ''x'', PList [PStr ''rust'']] []) = []"
proof -
  have a: "snd (paginated BlocksClient_get_blocks Client_blocks ok_server
          [PList [PStr ''block'', PStr ''aunt'']] [])
     = Inl (PulseChainBadParamException block_type_message)"
    by (simp add: paginated_def eval_defs)
  have b: "snd (paginated TransactionsClient_get_transactions Client_transactions ok_server
          [PList [PStr ''stuck'']] [(''next_page_params'', PDict [(''block_number'', PInt 100)])])
     = Inl (PulseChainBadParamException txn_filter_message)"
    by (simp add: paginated_def eval_defs)
  have c: "snd (paginated TokensClient_get_tokens Client_tokens ok_server
          [PStr ''x'', PList [PStr ''ERC-777'']] [])
     = Inl (PulseChainBadParamException token_type_message)"
    by (simp add: paginated_def eval_defs)
  have d: "snd (paginated AddressesClient_get_transactions Client_addresses ok_server
          [PStr ''0xabc'', PStr ''sideways''] [])
     = Inl (PulseChainBadParamException address_txn_filter_message)"
    by (simp add: paginated_def eval_defs)
  have e: "snd (paginated AddressesClient_get_token_transfers Client_addresses ok_server
          [PStr ''0xabc'', PList [PStr ''ERC-777'']] [])
     = Inl (PulseChainBadParamException token_type_message)"
    by (simp add: paginated_def eval_defs)
  have f: "snd (paginated AddressesClient_get_internal_transactions Client_addresses ok_server
          [PStr ''0xabc'', PStr ''sideways''] [])
     = Inl (PulseChainBadParamException address_txn_filter_message)"
    by (simp add: paginated_def eval_defs)
  have g: "snd (paginated AddressesClient_get_tokens Client_addresses ok_server
          [PStr ''0xabc'', PList [PStr ''ERC-777'']] [])
     = Inl (PulseChainBadParamException token_type_message)"
    by (simp add: paginated_def eval_defs)
  have h: "snd (SmartContractsClient_get_smart_contracts Client_smart_contracts ok_server
          [PStr ''x'', PList [PStr ''rust'']] [])
     = Inl (PulseChainBadParamException contract_filters_message)"
    by (simp add: paginated_def eval_defs)
  show ?thesis
    using a b c d e f g h
      invalid_filter_issues_no_request
        [of Client_blocks ok_server "[PList [PStr ''block'', PStr ''aunt'']]" "[]" block_type_message]
      invalid_filter_issues_no_request
        [of Client_transactions ok_server "[PList [PStr ''stuck'']]" "[(''next_page_params'', PDict [(''block_number'', PInt 100)])]" txn_filter_message]
      invalid_filter_issues_no_request
        [of Client_tokens ok_server "[PStr ''x'', PList [PStr ''ERC-777'']]" "[]" token_type_message]
      invalid_filter_issues_no_request
        [of Client_addresses ok_server "[PStr ''0xabc'', PStr ''sideways'']" "[]" address_txn_filter_message]
      invalid_filter_issues_no_request
        [of Client_addresses ok_server "[PStr ''0xabc'', PList [PStr ''ERC-777'']]" "[]" token_type_message]
      invalid_filter_issues_no_request
        [of Client_addresses ok_server "[PStr ''0xabc'', PStr ''sideways'']" "[]" address_txn_filter_message]
      invalid_filter_issues_no_request
        [of Client_addresses ok_server "[PStr ''0xabc'', PList [PStr ''ERC-777'']]" "[]" token_type_message]
      invalid_filter_issues_no_request
        [of Client_smart_contracts ok_server "[PStr ''x'', PList [PStr ''rust'']]" "[]" contract_filters_message]
    by simp
qed

text \<open>
  C1. The call \<open>get_transactions(txn_filter=["pending"])\<close> of the client issues one GET
  on \<open>transactions\<close> whose query parameters are empty: the wrapper drops the keyword.
  The same call with the list as a positional argument sends no filter either, since the
  method sets its filters only when \<open>params\<close> is not empty.
\<close>

theorem get_transactions_keyword_filter_is_dropped:
  "fst (paginated TransactionsClient_get_transactions Client_transactions tr []
          [(''txn_filter'', PList [PStr ''pending''])])
     = [\<lparr>req_url = ''https://api.scan.pulsechain.com/api/v2/transactions'',
         req_params = PDict [], req_timeout = 60\<rparr>]
   \<and> fst (paginated TransactionsClient_get_transactions Client_transactions tr
          [PList [PStr ''pending'']] [])
     = [\<lparr>req_url = ''https://api.scan.pulsechain.com/api/v2/transactions'',
         req_params = PDict [], req_timeout = 60\<rparr>]"
  by (simp add: fst_paginated TransactionsClient_get_transactions_def call_defs fst_fetch
      client_defs)

text \<open>
  C2. The call \<open>get_blocks(block_type=["block","uncle"])\<close> of the client issues one GET
  on \<open>blocks\<close> whose query parameters are empty: the wrapper drops the keyword. With the
  list as a positional argument the request carries \<open>type=block,uncle\<close>.
\<close>

theorem get_blocks_keyword_type_is_dropped:
  "fst (paginated BlocksClient_get_blocks Client_blocks tr []
          [(''block_type'', PList [PStr ''block'', PStr ''uncle''])])
     = [\<lparr>req_url = ''https://api.scan.pulsechain.com/api/v2/blocks'',
         req_params = PDict [], req_timeout = 60\<rparr>]
   \<and> fst (paginated BlocksClient_get_blocks Client_blocks tr
          [PList [PStr ''block'', PStr ''uncle'']] [])
     = [\<lparr>req_url = ''https://api.scan.pulsechain.com/api/v2/blocks'',
         req_params = PDict [(''type'', PStr ''block,uncle'')], req_timeout = 60\<rparr>]"
  by (simp add: fst_paginated BlocksClient_get_blocks_def call_defs fst_fetch
      client_defs validate_block_type_def py_join_def)




end
